theory Spec2Isabelle
  imports Complex_Main "HOL-Library.Sublist"
begin

section \<open>Python values, exceptions and the operations the sources use\<close>

text \<open>
  A Python exception is a value: its class and the text that \<open>str(e)\<close> gives. A computation
  that may raise returns \<open>exn + 'a\<close>, with \<open>Inl\<close> for the raised exception. Exceptions raised
  inside the third-party libraries (pytube, Haystack, llama-cpp) have class \<open>LibraryError\<close>.
\<close>

datatype exn_kind = ValueError | IndexError | KeyError | AttributeError | TypeError | LibraryError

datatype exn = Exn (kind: exn_kind) (message: string)

text \<open>\<open>xs[0]\<close>: the first element, IndexError on the empty list.\<close>

definition index0 :: "'a list \<Rightarrow> exn + 'a" where
  "index0 xs = (case xs of [] \<Rightarrow> Inl (Exn IndexError ''list index out of range'') | x # _ \<Rightarrow> Inr x)"

text \<open>\<open>d.get(k, default)\<close> and \<open>d[k]\<close> on a dictionary.\<close>

definition dict_get :: "('k \<rightharpoonup> 'v) \<Rightarrow> 'k \<Rightarrow> 'v \<Rightarrow> 'v" where
  "dict_get d k dflt = (case d k of None \<Rightarrow> dflt | Some v \<Rightarrow> v)"

definition dict_item :: "(string \<rightharpoonup> 'v) \<Rightarrow> string \<Rightarrow> exn + 'v" where
  "dict_item d k = (case d k of None \<Rightarrow> Inl (Exn KeyError k) | Some v \<Rightarrow> Inr v)"

text \<open>
  \<open>s.split(sep)\<close> with an explicit separator: the pieces between the leftmost,
  non-overlapping occurrences of \<open>sep\<close>, scanning from the left. \<open>split_from sep acc s\<close> is the
  scan with the current piece \<open>acc\<close> (kept reversed) and the rest \<open>s\<close> of the string. The empty
  separator is a ValueError.
\<close>

function split_from :: "string \<Rightarrow> string \<Rightarrow> string \<Rightarrow> string list" where
  "split_from sep acc [] = [rev acc]"
| "split_from sep acc (c # cs) =
     (if sep \<noteq> [] \<and> prefix sep (c # cs)
      then rev acc # split_from sep [] (drop (length sep) (c # cs))
      else split_from sep (c # acc) cs)"
  by pat_completeness auto
termination
  by (relation "measure (\<lambda>(sep, acc, s). length s)") auto

definition str_split :: "string \<Rightarrow> string \<Rightarrow> exn + string list" where
  "str_split s sep =
     (if sep = [] then Inl (Exn ValueError ''empty separator'') else Inr (split_from sep [] s))"

text \<open>
  The objects that a pipeline's output dictionary may hold under a key: Python does not type
  them, so the entry points may meet \<open>None\<close>, a string, a number or a list of such objects.
  \<open>truthy\<close> is the truth value that \<open>if x:\<close> tests, \<open>getitem0\<close> is \<open>x[0]\<close> and \<open>py_split\<close> is
  \<open>x.split(sep)\<close>, which only a string has.
\<close>

datatype pyval = PyNone | PyStr string | PyInt int | PyList "pyval list"

definition truthy :: "pyval \<Rightarrow> bool" where
  "truthy v = (case v of PyNone \<Rightarrow> False | PyStr s \<Rightarrow> s \<noteq> [] | PyInt n \<Rightarrow> n \<noteq> 0
                       | PyList xs \<Rightarrow> xs \<noteq> [])"

definition getitem0 :: "pyval \<Rightarrow> exn + pyval" where
  "getitem0 v =
     (case v of
        PyList xs \<Rightarrow> index0 xs
      | PyStr s \<Rightarrow>
          (case s of [] \<Rightarrow> Inl (Exn IndexError ''string index out of range'')
                   | c # _ \<Rightarrow> Inr (PyStr [c]))
      | PyNone \<Rightarrow> Inl (Exn TypeError ''NoneType object is not subscriptable'')
      | PyInt n \<Rightarrow> Inl (Exn TypeError ''int object is not subscriptable''))"

definition py_split :: "pyval \<Rightarrow> string \<Rightarrow> exn + string list" where
  "py_split v sep =
     (case v of
        PyStr s \<Rightarrow> str_split s sep
      | PyNone \<Rightarrow> Inl (Exn AttributeError ''NoneType object has no attribute split'')
      | PyInt n \<Rightarrow> Inl (Exn AttributeError ''int object has no attribute split'')
      | PyList xs \<Rightarrow> Inl (Exn AttributeError ''list object has no attribute split''))"

section \<open>model_add.py: the invocation adapter\<close>

text \<open>
  The llama-cpp response is a dictionary; the adapter reads its key \<open>'choices'\<close> (a list of
  choice dictionaries) and the key \<open>'text'\<close> of a choice, each of which may be absent. The
  runtime object \<open>Llama\<close> is outside the repository: it is a parameter, a function from the
  prompt and \<open>max_tokens\<close> that may raise, and that may change its own state \<open>'s\<close>.
\<close>

type_synonym choice = "string \<rightharpoonup> string"

type_synonym response = "string \<rightharpoonup> choice list"

type_synonym 's llama = "string \<Rightarrow> int \<Rightarrow> 's \<Rightarrow> (exn + response) \<times> 's"

record 's LlamaCPPInvocationLayer =
  model :: "'s llama"
  max_length :: int

text \<open>
  \<open>__init__(self, model_path, use_gpu=False, max_length=512)\<close>. The first argument is the
  library's constructor \<open>Llama(model_path=..., n_gpu_layers=...)\<close>, which raises when the
  weights cannot be loaded.
\<close>

definition LlamaCPPInvocationLayer_init ::
  "(string \<Rightarrow> int \<Rightarrow> exn + 's llama) \<Rightarrow> string \<Rightarrow> bool \<Rightarrow> int \<Rightarrow> exn + 's LlamaCPPInvocationLayer" where
  "LlamaCPPInvocationLayer_init Llama model_path use_gpu max_len =
     (case Llama model_path (if use_gpu then 1 else 0) of
        Inl e \<Rightarrow> Inl e
      | Inr m \<Rightarrow> Inr \<lparr>model = m, max_length = max_len\<rparr>)"

text \<open>
  \<open>__call__(self, prompt)\<close>:
  \<^verbatim>\<open>response = self.model(prompt=prompt, max_tokens=self.max_length)\<close>,
  \<^verbatim>\<open>return response.get('choices', [{}])[0].get('text', '')\<close>.
\<close>

definition LlamaCPPInvocationLayer_call ::
  "'s LlamaCPPInvocationLayer \<Rightarrow> string \<Rightarrow> 's \<Rightarrow> (exn + string) \<times> 's" where
  "LlamaCPPInvocationLayer_call self prompt s =
     (case model self prompt (max_length self) s of
        (Inl e, s') \<Rightarrow> (Inl e, s')
      | (Inr response, s') \<Rightarrow>
          (case index0 (dict_get response ''choices'' [Map.empty]) of
             Inl e \<Rightarrow> (Inl e, s')
           | Inr c \<Rightarrow> (Inr (dict_get c ''text'' ''''), s')))"

text \<open>
  To count the generation requests of a call, a runtime is wrapped so that every request it
  receives is appended to a trace kept beside its state.
\<close>

definition logged :: "'s llama \<Rightarrow> ('s \<times> (string \<times> int) list) llama" where
  "logged g prompt n = (\<lambda>(s, trace). case g prompt n s of (r, s') \<Rightarrow> (r, (s', trace @ [(prompt, n)])))"

text \<open>A runtime that answers every request with the single token \<open>" the"\<close>.\<close>

definition one_token_runtime :: "unit llama" where
  "one_token_runtime prompt n s = (Inr [''choices'' \<mapsto> [[''text'' \<mapsto> '' the'']]], s)"

section \<open>The libraries the two entry points call\<close>

text \<open>
  A pytube stream, with the attributes the filters read: \<open>abr\<close> is the audio bitrate (absent
  on a video-only stream), and \<open>filter(only_audio=True)\<close> keeps the streams that have an audio
  track and no video track.
\<close>

record stream =
  itag :: int
  abr :: "string option"
  includes_audio_track :: bool
  includes_video_track :: bool

text \<open>\<open>StreamQuery.first()\<close> and \<open>StreamQuery.last()\<close>: an element, or \<open>None\<close> on the empty query.\<close>

definition first :: "'a list \<Rightarrow> 'a option" where
  "first xs = (case xs of [] \<Rightarrow> None | x # _ \<Rightarrow> Some x)"

definition last_opt :: "'a list \<Rightarrow> 'a option" where
  "last_opt xs = (case rev xs of [] \<Rightarrow> None | x # _ \<Rightarrow> Some x)"

text \<open>
  The output dictionary of a pipeline run: the entry points read its key \<open>"results"\<close>,
  where the summarization node puts the list of result strings; the code does not check what
  it finds there.
\<close>

type_synonym run_output = "string \<rightharpoonup> pyval"

record 's PromptModel =
  model_name_or_path :: string
  invocation_layer :: "'s LlamaCPPInvocationLayer"
  use_gpu :: bool
  model_max_length :: int

record 's PromptNode =
  prompt_model :: "'s PromptModel"
  default_prompt_template :: string
  node_use_gpu :: bool

text \<open>
  The work of the libraries that a run of the application has completed when it reads the
  clock: the download of the audio of a URL, the loading of the model at a path, the run of
  the pipeline on a file.
\<close>

datatype step = Downloaded string | Model_loaded string | Summarized string

text \<open>
  The world outside the repository, as the parameters of the model: what pytube resolves and
  downloads, the file system, what Haystack's constructor \<open>PromptModel(model_name_or_path,
  invocation_layer_class=LlamaCPPInvocationLayer, use_gpu, max_length)\<close> returns or raises,
  what the two Haystack nodes compute, and the reading of the wall clock (\<open>time.time()\<close>)
  once the given steps are completed. Nothing is assumed of the constructor: the Haystack
  releases that take \<open>invocation_layer_class\<close> call the class with the keyword
  \<open>model_name_or_path\<close>, which \<open>LlamaCPPInvocationLayer.__init__\<close> does not accept, and
  there the constructor raises a TypeError for every path.
\<close>

record 's env =
  YouTube_streams :: "string \<Rightarrow> exn + stream list"
  Stream_download :: "stream \<Rightarrow> string option \<Rightarrow> exn + string"
  os_path_exists :: "string \<Rightarrow> bool"
  PromptModel_new :: "string \<Rightarrow> bool \<Rightarrow> int \<Rightarrow> exn + 's PromptModel"
  WhisperTranscriber_run :: "string list \<Rightarrow> exn + string"
  PromptNode_run :: "'s PromptNode \<Rightarrow> string \<Rightarrow> exn + run_output"
  time_time :: "step list \<Rightarrow> real"

subsection \<open>The Haystack pipeline\<close>

text \<open>
  Modelled from the spec: the pipeline framework (the nodes, \<open>Pipeline.add_node\<close> and
  \<open>Pipeline.run\<close>) is Haystack's and is not part of the repository; the model follows
  section 4.3 of the specification. What flows along an edge of the pipeline is the file paths
  given to \<open>run\<close>, the transcript that the transcription node produces, or the output
  dictionary of the summarization node. What the two nodes compute is left to the world
  (\<open>WhisperTranscriber_run\<close>, \<open>PromptNode_run\<close>); a node given anything but its one
  input fails.
\<close>

datatype data = FilePaths "string list" | Documents string | Results run_output

datatype 's component = WhisperTranscriber | PromptNodeC "'s PromptNode"

type_synonym 's node = "string \<times> 's component \<times> string list"

type_synonym 's pipeline = "'s node list"

text \<open>\<open>pipeline.add_node(component=..., name=..., inputs=[...])\<close>.\<close>

definition add_node :: "'s pipeline \<Rightarrow> 's component \<Rightarrow> string \<Rightarrow> string list \<Rightarrow> 's pipeline" where
  "add_node p cmp name inputs = p @ [(name, cmp, inputs)]"

definition component_run :: "'s env \<Rightarrow> 's component \<Rightarrow> data list \<Rightarrow> exn + data" where
  "component_run env cmp ins =
     (case (cmp, ins) of
        (WhisperTranscriber, [FilePaths fs]) \<Rightarrow>
          (case WhisperTranscriber_run env fs of Inl e \<Rightarrow> Inl e | Inr t \<Rightarrow> Inr (Documents t))
      | (PromptNodeC pn, [Documents t]) \<Rightarrow>
          (case PromptNode_run env pn t of Inl e \<Rightarrow> Inl e | Inr out \<Rightarrow> Inr (Results out))
      | _ \<Rightarrow> Inl (Exn LibraryError ''unexpected node input''))"

text \<open>
  Modelled from the spec: \<open>Pipeline.run\<close> is Haystack's, not the repository's. Section 4.3 and
  section 5 of the specification: the pipeline is executed synchronously, in a single pass, one
  node at a time; a node consumes what the nodes named in its \<open>inputs\<close> produced, so it is
  executed only once all of them have been; a failure in a node aborts the whole run. The
  loop keeps the outputs produced so far (\<open>outs\<close>, the root \<open>"File"\<close> holding the file
  paths) and the trace of the executions (node, inputs consumed, result), and each round
  executes the first node, in the order of insertion, that has not been executed and whose
  inputs are all there.
\<close>

definition ready :: "(string \<times> data) list \<Rightarrow> 's node \<Rightarrow> bool" where
  "ready outs n =
     (case n of (name, cmp, inputs) \<Rightarrow>
        map_of outs name = None \<and> list_all (\<lambda>i. map_of outs i \<noteq> None) inputs)"

definition inputs_of :: "(string \<times> data) list \<Rightarrow> string list \<Rightarrow> data list" where
  "inputs_of outs inputs = List.map_filter (map_of outs) inputs"

type_synonym execution = "string \<times> data list \<times> (exn + data)"

function run_loop ::
  "'s env \<Rightarrow> 's pipeline \<Rightarrow> (string \<times> data) list \<Rightarrow> execution list \<Rightarrow> execution list" where
  "run_loop env p outs trace =
     (case find (ready outs) p of
        None \<Rightarrow> trace
      | Some (name, cmp, inputs) \<Rightarrow>
          (case component_run env cmp (inputs_of outs inputs) of
             Inl e \<Rightarrow> trace @ [(name, inputs_of outs inputs, Inl e)]
           | Inr d \<Rightarrow>
               run_loop env p (outs @ [(name, d)])
                 (trace @ [(name, inputs_of outs inputs, Inr d)])))"
  by pat_completeness auto

termination
proof (relation "measure (\<lambda>(env, p, outs, trace). length (filter (\<lambda>n. map_of outs (fst n) = None) p))")
  show "wf (measure (\<lambda>(env, p, outs, trace). length (filter (\<lambda>n. map_of outs (fst n) = None) p)))"
    by simp
next
  fix env :: "'s env" and p :: "'s pipeline" and outs :: "(string \<times> data) list"
    and trace :: "execution list" and x2 name y cmp inputs d
  assume f: "find (ready outs) p = Some x2" and x2: "(name, y) = x2" and y: "(cmp, inputs) = y"
    and "component_run env cmp (inputs_of outs inputs) = Inr d"
  let ?P = "\<lambda>n::'s node. map_of outs (fst n) = None"
  let ?Q = "\<lambda>n::'s node. map_of (outs @ [(name, d)]) (fst n) = None"
  from f x2 y have mem: "(name, cmp, inputs) \<in> set p" and rdy: "ready outs (name, cmp, inputs)"
    by (auto simp: find_Some_iff)
  from rdy have nd: "map_of outs name = None" by (simp add: ready_def)
  have imp: "\<And>n. ?Q n \<Longrightarrow> ?P n" by (auto simp: map_add_def split: option.splits)
  then have eq: "filter ?Q p = filter ?Q (filter ?P p)" by (auto intro: filter_cong)
  have "(name, cmp, inputs) \<in> set (filter ?P p)" using mem nd by simp
  moreover have "\<not> ?Q (name, cmp, inputs)" using nd by (simp add: map_add_def)
  ultimately have "length (filter ?Q (filter ?P p)) < length (filter ?P p)"
    by (rule length_filter_less)
  with eq show "((env, p, outs @ [(name, d)], trace @ [(name, inputs_of outs inputs, Inr d)]), env, p, outs, trace)
        \<in> measure (\<lambda>(env, p, outs, trace). length (filter (\<lambda>n. map_of outs (fst n) = None) p))"
    by simp
qed

declare run_loop.simps [simp del]

text \<open>
  \<open>pipeline.run(file_paths=[...])\<close>: the executions of the nodes, in order, and what the call
  returns, the output of the node executed last, or raises, what a node raised.
\<close>

definition Pipeline_run ::
  "'s env \<Rightarrow> 's pipeline \<Rightarrow> string list \<Rightarrow> execution list \<times> (exn + run_output)" where
  "Pipeline_run env p file_paths =
     (let trace = run_loop env p [(''File'', FilePaths file_paths)] [] in
      (trace,
       case last_opt trace of
         None \<Rightarrow> Inr Map.empty
       | Some (name, ins, Inl e) \<Rightarrow> Inl e
       | Some (name, ins, Inr d) \<Rightarrow> Inr (case d of Results out \<Rightarrow> out | _ \<Rightarrow> Map.empty)))"

text \<open>
  What the specification says of a run of the two-node pipeline on the given file paths: the
  transcription node is executed first, on the file paths; the summarization node is executed
  after it, on the transcript it produced, and not at all when the transcription failed. The
  run returns what the summarization node returned, and raises what either node raised.
\<close>

definition spec_two_node_run :: "'s env \<Rightarrow> 's PromptNode \<Rightarrow> string list \<Rightarrow> execution list" where
  "spec_two_node_run env pn file_paths =
     (case WhisperTranscriber_run env file_paths of
        Inl e \<Rightarrow> [(''whisper'', [FilePaths file_paths], Inl e)]
      | Inr t \<Rightarrow>
          [(''whisper'', [FilePaths file_paths], Inr (Documents t)),
           (''prompt'', [Documents t],
              (case PromptNode_run env pn t of Inl e \<Rightarrow> Inl e | Inr out \<Rightarrow> Inr (Results out)))])"

definition spec_two_node_result :: "'s env \<Rightarrow> 's PromptNode \<Rightarrow> string list \<Rightarrow> exn + run_output" where
  "spec_two_node_result env pn file_paths =
     (case WhisperTranscriber_run env file_paths of
        Inl e \<Rightarrow> Inl e
      | Inr t \<Rightarrow> PromptNode_run env pn t)"

section \<open>summary.py: the batch script\<close>

definition SUMMARY_PROMPT :: string where
  "SUMMARY_PROMPT = ''deepset/summarization''"

definition MODEL_PATH :: string where
  "MODEL_PATH = ''llama-2-7b-32k-instruct.Q4_K_S.gguf''"

definition MODEL_MAX_LENGTH :: int where
  "MODEL_MAX_LENGTH = 512"

definition YOUTUBE_URL :: string where
  "YOUTUBE_URL = ''https://www.youtube.com/watch?v=h5id4erwD4s''"

text \<open>The marker \<^verbatim>\<open>"\n\n[INST]"\<close> that both entry points split on: two line feeds, then \<open>[INST]\<close>.\<close>

definition INST_MARKER :: string where
  "INST_MARKER = [CHR 0x0A, CHR 0x0A] @ ''[INST]''"

text \<open>
  \<open>yt.streams.filter(abr=abr)\<close>: pytube adds the test on the bitrate only when the argument
  is truthy, so the empty string filters nothing out.
\<close>

definition filter_abr :: "string \<Rightarrow> stream list \<Rightarrow> stream list" where
  "filter_abr abr_wanted streams =
     (if abr_wanted \<noteq> [] then filter (\<lambda>s. abr s = Some abr_wanted) streams else streams)"

text \<open>\<open>youtube_to_audio(url, abr='160kbps')\<close>.\<close>

definition youtube_to_audio :: "'s env \<Rightarrow> string \<Rightarrow> string \<Rightarrow> exn + string" where
  "youtube_to_audio env url abr_wanted =
     (case YouTube_streams env url of
        Inl e \<Rightarrow> Inl e
      | Inr streams \<Rightarrow>
          (case last_opt (filter_abr abr_wanted streams) of
             None \<Rightarrow> Inl (Exn ValueError (''No audio stream with '' @ abr_wanted @ '' available.''))
           | Some st \<Rightarrow> Stream_download env st None))"

text \<open>\<open>build_pipeline(model_path, max_length, use_gpu=False)\<close>.\<close>

definition build_pipeline :: "'s env \<Rightarrow> string \<Rightarrow> int \<Rightarrow> bool \<Rightarrow> exn + 's pipeline" where
  "build_pipeline env path max_len gpu =
     (let whisper = WhisperTranscriber in
      case PromptModel_new env path gpu max_len of
        Inl e \<Rightarrow> Inl e
      | Inr m \<Rightarrow>
          (let prompt_node = \<lparr>prompt_model = m, default_prompt_template = SUMMARY_PROMPT,
                               node_use_gpu = gpu\<rparr>;
               pipeline = [];
               pipeline = add_node pipeline whisper ''whisper'' [''File''];
               pipeline = add_node pipeline (PromptNodeC prompt_node) ''prompt'' [''whisper'']
           in Inr pipeline))"

text \<open>
  The expression \<^verbatim>\<open>results[0].split("\n\n[INST]")[0]\<close>, which both entry points evaluate on
  what they find under \<open>"results"\<close>.
\<close>

definition first_summary :: "pyval \<Rightarrow> exn + string" where
  "first_summary results =
     (case getitem0 results of
        Inl e \<Rightarrow> Inl e
      | Inr r \<Rightarrow> (case py_split r INST_MARKER of Inl e \<Rightarrow> Inl e | Inr parts \<Rightarrow> index0 parts))"

text \<open>
  What the script writes to standard output: a line of text, or the \<open>repr\<close> of an object that
  is not a string (\<open>print(results)\<close>). A run of \<open>main\<close> gives the lines printed and the
  exception that left \<open>main\<close> uncaught, if any.
\<close>

datatype printed = Line string | Repr pyval

definition py_print :: "pyval \<Rightarrow> printed" where
  "py_print v = (case v of PyStr s \<Rightarrow> Line s | _ \<Rightarrow> Repr v)"

text \<open>The end of \<open>main(url)\<close>, from \<^verbatim>\<open>results = output.get("results", [])\<close> on.\<close>

definition main_report :: "run_output \<Rightarrow> printed list \<times> exn option" where
  "main_report out =
     (let results = dict_get out ''results'' (PyList []) in
      if truthy results then
        (case first_summary results of
           Inl e \<Rightarrow> ([py_print results], Some e)
         | Inr summary \<Rightarrow> ([py_print results, Line summary], None))
      else ([Line ''No results produced by pipeline.''], None))"

text \<open>\<open>main(url)\<close> of summary.py.\<close>

definition summary_main :: "'s env \<Rightarrow> string \<Rightarrow> printed list \<times> exn option" where
  "summary_main env url =
     (case youtube_to_audio env url ''160kbps'' of
        Inl e \<Rightarrow> ([Line (''Failed to fetch audio: '' @ message e)], None)
      | Inr file_path \<Rightarrow>
          (case build_pipeline env MODEL_PATH MODEL_MAX_LENGTH False of
             Inl e \<Rightarrow> ([], Some e)
           | Inr pipeline \<Rightarrow>
               (case snd (Pipeline_run env pipeline [file_path]) of
                  Inl e \<Rightarrow> ([], Some e)
                | Inr out \<Rightarrow> main_report out)))"

section \<open>youtube_summarizer.py: the Streamlit application\<close>

text \<open>
  What the application shows, in order: one event for each Streamlit call. The title, the
  markdown line and the expander show fixed text; the caption shows the elapsed time.
\<close>

datatype st_event =
    Title | Markdown | Expander
  | Info string | Error string | Video string | Header string
  | Success string | Warning string | Write run_output | Caption real

text \<open>The values of the widgets: the two text inputs and the button.\<close>

record ui_input =
  youtube_url :: string
  model_path :: string
  submit :: bool

text \<open>\<open>download_audio(url)\<close>: the events shown, and the path or \<open>None\<close>.\<close>

definition download_audio :: "'s env \<Rightarrow> string \<Rightarrow> st_event list \<times> string option" where
  "download_audio env url =
     (case (case YouTube_streams env url of
              Inl e \<Rightarrow> Inl e
            | Inr streams \<Rightarrow>
                (case first (filter (\<lambda>s. includes_audio_track s \<and> \<not> includes_video_track s) streams) of
                   None \<Rightarrow> Inl (Exn AttributeError ''NoneType object has no attribute download'')
                 | Some audio_stream \<Rightarrow> Stream_download env audio_stream (Some ''audio_''))) of
        Inr file_path \<Rightarrow> ([], Some file_path)
      | Inl e \<Rightarrow> ([Error (''Error downloading YouTube audio: '' @ message e)], None))"

text \<open>\<open>load_model(model_path)\<close>: the events shown, and the model, \<open>None\<close> or the exception raised.\<close>

definition load_model :: "'s env \<Rightarrow> string \<Rightarrow> st_event list \<times> (exn + 's PromptModel option)" where
  "load_model env path =
     (if \<not> os_path_exists env path then ([Error (''Model not found at '' @ path)], Inr None)
      else (case PromptModel_new env path False 512 of
              Inl e \<Rightarrow> ([], Inl e)
            | Inr m \<Rightarrow> ([], Inr (Some m))))"

definition build_prompt_node :: "'s PromptModel \<Rightarrow> 's PromptNode" where
  "build_prompt_node m =
     (let template = ''deepset/summarization'' in
      \<lparr>prompt_model = m, default_prompt_template = template, node_use_gpu = False\<rparr>)"

text \<open>
  The pipeline \<open>pipe\<close> that \<open>summarize_audio\<close> builds, and \<open>summarize_audio\<close> itself: the
  executions of the nodes and what \<open>pipe.run\<close> returns or raises.
\<close>

definition summarize_audio_pipe :: "'s PromptNode \<Rightarrow> 's pipeline" where
  "summarize_audio_pipe prompt_node =
     (let whisper = WhisperTranscriber;
          pipe = [];
          pipe = add_node pipe whisper ''whisper'' [''File''];
          pipe = add_node pipe (PromptNodeC prompt_node) ''prompt'' [''whisper'']
      in pipe)"

definition summarize_audio ::
  "'s env \<Rightarrow> string \<Rightarrow> 's PromptNode \<Rightarrow> execution list \<times> (exn + run_output)" where
  "summarize_audio env file_path prompt_node =
     Pipeline_run env (summarize_audio_pipe prompt_node) [file_path]"

text \<open>
  The second column of \<open>main()\<close>: the header, the summary inside \<open>try\<close> with the fallback of
  the \<open>except\<close> branch, and the caption with the processing time.
\<close>

definition summary_column :: "run_output \<Rightarrow> real \<Rightarrow> st_event list" where
  "summary_column result elapsed =
     [Header ''Summary''] @
     (case (case dict_item result ''results'' of Inl e \<Rightarrow> Inl e | Inr rs \<Rightarrow> first_summary rs) of
        Inr summary_text \<Rightarrow> [Success summary_text]
      | Inl e \<Rightarrow> [Warning ''Summary extraction failed. Full output below:'', Write result]) @
     [Caption elapsed]"

text \<open>
  \<open>main()\<close> of youtube_summarizer.py: the events shown and the uncaught exception, if any.
  The clock is read first when nothing is done yet, and again when the download, the loading
  of the model and the run of the pipeline are completed.
\<close>

definition youtube_summarizer_main :: "'s env \<Rightarrow> ui_input \<Rightarrow> st_event list \<times> exn option" where
  "youtube_summarizer_main env inp =
     (let page = [Title, Markdown, Expander] in
      if submit inp \<and> youtube_url inp \<noteq> [] then
        (let start = time_time env [];
             page = page @ [Info ''Downloading and processing video...''] in
         case download_audio env (youtube_url inp) of
           (shown, None) \<Rightarrow> (page @ shown, None)
         | (shown, Some file_path) \<Rightarrow>
             if file_path = [] then (page @ shown, None)
             else
               (case load_model env (model_path inp) of
                  (shown', Inl e) \<Rightarrow> (page @ shown @ shown', Some e)
                | (shown', Inr None) \<Rightarrow> (page @ shown @ shown', None)
                | (shown', Inr (Some m)) \<Rightarrow>
                    (let prompt_node = build_prompt_node m in
                     case snd (summarize_audio env file_path prompt_node) of
                       Inl e \<Rightarrow> (page @ shown @ shown', Some e)
                     | Inr result \<Rightarrow>
                         (let stop = time_time env [Downloaded (youtube_url inp),
                                                    Model_loaded (model_path inp),
                                                    Summarized file_path];
                              elapsed = stop - start
                          in (page @ shown @ shown' @ [Video (youtube_url inp)] @
                                summary_column result elapsed, None)))))
      else (page, None))"

text \<open>
  A run of the application completes when the button is pressed with a URL, the download
  gives a path, the model is loaded and the run of the pipeline returns.
\<close>

definition run_completes :: "'s env \<Rightarrow> ui_input \<Rightarrow> bool" where
  "run_completes env inp =
     (submit inp \<and> youtube_url inp \<noteq> [] \<and>
      (case download_audio env (youtube_url inp) of
         (shown, None) \<Rightarrow> False
       | (shown, Some file_path) \<Rightarrow>
           file_path \<noteq> [] \<and>
           (case load_model env (model_path inp) of
              (shown', Inr (Some m)) \<Rightarrow>
                (case snd (summarize_audio env file_path (build_prompt_node m)) of
                   Inl e \<Rightarrow> False
                 | Inr result \<Rightarrow> True)
            | _ \<Rightarrow> False)))"

section \<open>A concrete world for the examples\<close>

text \<open>
  A world in which every library call succeeds: two audio streams, a constructor that returns
  a model built around the layer (a framework that accepts the layer class, which Haystack's
  own constructor does not), a transcript, a result with the marker, and a clock that
  advances by 14 seconds with each completed step. The worlds of the examples below are this
  one with a field changed, the constructor that raises among them.
\<close>

definition example_env :: "unit env" where
  "example_env =
     \<lparr>YouTube_streams = (\<lambda>url. Inr
          [\<lparr>itag = 140, abr = Some ''128kbps'', includes_audio_track = True, includes_video_track = False\<rparr>,
           \<lparr>itag = 251, abr = Some ''160kbps'', includes_audio_track = True, includes_video_track = False\<rparr>]),
      Stream_download = (\<lambda>st filename_prefix.
          Inr (case filename_prefix of None \<Rightarrow> ''talk.webm'' | Some p \<Rightarrow> p @ ''talk.webm'')),
      os_path_exists = (\<lambda>path. True),
      PromptModel_new = (\<lambda>path gpu max_len. Inr
          \<lparr>model_name_or_path = path,
           invocation_layer = \<lparr>model = one_token_runtime, max_length = max_len\<rparr>,
           use_gpu = gpu, model_max_length = max_len\<rparr>),
      WhisperTranscriber_run = (\<lambda>file_paths. Inr ''a transcript''),
      PromptNode_run = (\<lambda>pn transcript.
          Inr [''results'' \<mapsto> PyList [PyStr (''A summary.'' @ INST_MARKER @ '' more'')]]),
      time_time = (\<lambda>steps. 100 + 14 * real (length steps))\<rparr>"

section \<open>Properties of the invocation adapter\<close>

text \<open>
  C10: when the runtime's response has no key \<open>'choices'\<close>, or its first choice has no key
  \<open>'text'\<close>, the call returns the empty string and does not raise.
\<close>

theorem call_missing_keys_empty:
  assumes "model self prompt (max_length self) s = (Inr r, s')"
    and "r ''choices'' = None \<or> (\<exists>c cs. r ''choices'' = Some (c # cs) \<and> c ''text'' = None)"
  shows "LlamaCPPInvocationLayer_call self prompt s = (Inr '''', s')"
  using assms by (auto simp: LlamaCPPInvocationLayer_call_def dict_get_def index0_def)

theorem call_missing_keys_empty_witness:
  "LlamaCPPInvocationLayer_call
     \<lparr>model = (\<lambda>p n s. (Inr Map.empty, s)), max_length = 512\<rparr> ''hello'' () = (Inr '''', ())
   \<and> LlamaCPPInvocationLayer_call
     \<lparr>model = (\<lambda>p n s. (Inr [''choices'' \<mapsto> [Map.empty]], s)), max_length = 512\<rparr> ''hello'' ()
       = (Inr '''', ())"
proof
  show "LlamaCPPInvocationLayer_call
     \<lparr>model = (\<lambda>p n s. (Inr Map.empty, s)), max_length = 512\<rparr> ''hello'' () = (Inr '''', ())"
    by (rule call_missing_keys_empty [where r = Map.empty]) simp_all
  show "LlamaCPPInvocationLayer_call
     \<lparr>model = (\<lambda>p n s. (Inr [''choices'' \<mapsto> [Map.empty]], s)), max_length = 512\<rparr> ''hello'' ()
       = (Inr '''', ())"
    by (rule call_missing_keys_empty [where r = "[''choices'' \<mapsto> [Map.empty]]"]) simp_all
qed

text \<open>
  C6: a call makes exactly one generation request, the prompt with the configured maximum
  as \<open>max_tokens\<close>, whether the request succeeds or raises (the log of the requests grows
  by that one entry); an exception raised by the runtime is the result of the call: it is
  neither caught nor retried.
\<close>

theorem call_single_request:
  "snd (snd (LlamaCPPInvocationLayer_call \<lparr>model = logged g, max_length = n\<rparr> prompt (s, reqs)))
     = reqs @ [(prompt, n)]
   \<and> (\<forall>e. fst (g prompt n s) = Inl e \<longrightarrow>
        fst (LlamaCPPInvocationLayer_call \<lparr>model = logged g, max_length = n\<rparr> prompt (s, reqs)) = Inl e
        \<and> fst (LlamaCPPInvocationLayer_call \<lparr>model = g, max_length = n\<rparr> prompt s) = Inl e)"
  by (auto simp: LlamaCPPInvocationLayer_call_def logged_def split: prod.splits sum.splits)

theorem call_single_request_witness:
  "snd (snd (LlamaCPPInvocationLayer_call
       \<lparr>model = logged (\<lambda>p n s. (Inl (Exn LibraryError ''out of memory''), s)), max_length = 512\<rparr>
       ''Summarize:'' ((), []))) = [(''Summarize:'', 512)]
   \<and> fst (LlamaCPPInvocationLayer_call
       \<lparr>model = logged (\<lambda>p n s. (Inl (Exn LibraryError ''out of memory''), s)), max_length = 512\<rparr>
       ''Summarize:'' ((), [])) = Inl (Exn LibraryError ''out of memory'')
   \<and> fst (LlamaCPPInvocationLayer_call
       \<lparr>model = (\<lambda>p n s. (Inl (Exn LibraryError ''out of memory''), s)), max_length = 512\<rparr>
       ''Summarize:'' ()) = Inl (Exn LibraryError ''out of memory'')"
  using call_single_request [of "\<lambda>p n s. (Inl (Exn LibraryError ''out of memory''), s)" 512
      "''Summarize:''" "()" "[]"]
  by simp

text \<open>
  C3, as stated, fails: the adapter passes the maximum to the runtime as a number of tokens and
  returns the text unchanged, so a single token of four characters is returned whole under a
  maximum of 1.
\<close>

theorem call_text_longer_than_max_length:
  "LlamaCPPInvocationLayer_call \<lparr>model = one_token_runtime, max_length = 1\<rparr> ''Summarize:'' ()
     = (Inr '' the'', ())
   \<and> \<not> int (length '' the'') \<le> 1"
  by (simp add: LlamaCPPInvocationLayer_call_def one_token_runtime_def dict_get_def index0_def)

text \<open>
  C3, amended: a call makes one request to the runtime, with the maximum as \<open>max_tokens\<close>, and
  returns the text of the first choice of the response exactly as the runtime produced it,
  nothing cut off, or the empty text when the key \<open>'choices'\<close> or \<open>'text'\<close> is absent. So the
  returned text is within the maximum in every measure in which the text of the runtime's
  first choice and the empty text are (the number of tokens, for a runtime that keeps to
  \<open>max_tokens\<close>); its length in characters may exceed the maximum.
\<close>

theorem call_returns_runtime_text:
  "(model self prompt (max_length self) s = (Inr r, s') \<and> r ''choices'' = Some (c # cs)
      \<and> c ''text'' = Some t
      \<longrightarrow> LlamaCPPInvocationLayer_call self prompt s = (Inr t, s'))
   \<and> (model self prompt (max_length self) s = (Inr r, s')
      \<and> (r ''choices'' = None \<or> (r ''choices'' = Some (c # cs) \<and> c ''text'' = None))
      \<longrightarrow> LlamaCPPInvocationLayer_call self prompt s = (Inr [], s'))
   \<and> snd (snd (LlamaCPPInvocationLayer_call \<lparr>model = logged g, max_length = n\<rparr> prompt (s0, reqs)))
       = reqs @ [(prompt, n)]
   \<and> (LlamaCPPInvocationLayer_call self prompt s = (Inr t', s'')
      \<and> measure_of [] \<le> max_length self
      \<and> (\<forall>r1 s1 c1 cs1 t1. model self prompt (max_length self) s = (Inr r1, s1) \<longrightarrow>
             r1 ''choices'' = Some (c1 # cs1) \<longrightarrow> c1 ''text'' = Some t1 \<longrightarrow>
             measure_of t1 \<le> max_length self)
      \<longrightarrow> measure_of t' \<le> max_length self)"
proof (intro conjI impI)
  assume "model self prompt (max_length self) s = (Inr r, s') \<and> r ''choices'' = Some (c # cs)
      \<and> c ''text'' = Some t"
  then show "LlamaCPPInvocationLayer_call self prompt s = (Inr t, s')"
    by (simp add: LlamaCPPInvocationLayer_call_def dict_get_def index0_def)
next
  assume "model self prompt (max_length self) s = (Inr r, s')
      \<and> (r ''choices'' = None \<or> (r ''choices'' = Some (c # cs) \<and> c ''text'' = None))"
  then show "LlamaCPPInvocationLayer_call self prompt s = (Inr [], s')"
    by (auto simp: LlamaCPPInvocationLayer_call_def dict_get_def index0_def)
next
  show "snd (snd (LlamaCPPInvocationLayer_call \<lparr>model = logged g, max_length = n\<rparr> prompt (s0, reqs)))
       = reqs @ [(prompt, n)]"
    by (auto simp: LlamaCPPInvocationLayer_call_def logged_def split: prod.splits sum.splits)
next
  assume "LlamaCPPInvocationLayer_call self prompt s = (Inr t', s'')
      \<and> measure_of [] \<le> max_length self
      \<and> (\<forall>r1 s1 c1 cs1 t1. model self prompt (max_length self) s = (Inr r1, s1) \<longrightarrow>
             r1 ''choices'' = Some (c1 # cs1) \<longrightarrow> c1 ''text'' = Some t1 \<longrightarrow>
             measure_of t1 \<le> max_length self)"
  then show "measure_of t' \<le> max_length self"
    by (auto simp: LlamaCPPInvocationLayer_call_def dict_get_def index0_def
        split: prod.splits sum.splits option.splits list.splits)
qed

theorem call_returns_runtime_text_witness:
  "LlamaCPPInvocationLayer_call \<lparr>model = one_token_runtime, max_length = 4\<rparr> ''Summarize:'' ()
     = (Inr '' the'', ())
   \<and> LlamaCPPInvocationLayer_call \<lparr>model = (\<lambda>p n s. (Inr Map.empty, s)), max_length = 4\<rparr>
       ''Summarize:'' () = (Inr [], ())
   \<and> snd (snd (LlamaCPPInvocationLayer_call \<lparr>model = logged one_token_runtime, max_length = 4\<rparr>
       ''Summarize:'' ((), []))) = [(''Summarize:'', 4)]
   \<and> int (length '' the'') \<le> 4"
  using call_returns_runtime_text [of "\<lparr>model = one_token_runtime, max_length = 4\<rparr>"
      "''Summarize:''" "()" "[''choices'' \<mapsto> [[''text'' \<mapsto> '' the'']]]" "()" "[''text'' \<mapsto> '' the'']" "[]"
      "'' the''" one_token_runtime 4 "()" "[]" "'' the''" "()" "\<lambda>t. int (length t)"]
    call_returns_runtime_text [of "\<lparr>model = (\<lambda>p n s. (Inr Map.empty, s)), max_length = 4\<rparr>"
      "''Summarize:''" "()" Map.empty "()" Map.empty "[]"
      "[]" one_token_runtime 4 "()" "[]" "[]" "()" "\<lambda>t. int (length t)"]
  by (simp add: one_token_runtime_def)

section \<open>Splitting a string on a separator\<close>

text \<open>
  A string in which the separator does not occur is returned whole; otherwise the first piece
  is the text before the first occurrence, the occurrence before which the separator fits
  nowhere.
\<close>

lemma split_from_absent:
  "\<not> sublist sep s \<Longrightarrow> split_from sep acc s = [rev acc @ s]"
proof (induction s arbitrary: acc)
  case Nil
  then show ?case by simp
next
  case (Cons c cs)
  from Cons.prems have np: "\<not> prefix sep (c # cs)" and ns: "\<not> sublist sep cs"
    by (auto simp: sublist_Cons_right)
  from Cons.IH [OF ns, of "c # acc"] np show ?case by simp
qed

lemma prefix_overlap:
  assumes "prefix sep (a @ sep @ r)" and "a \<noteq> []"
  shows "prefix sep (a @ butlast sep)"
proof (cases "sep = []")
  case True
  then show ?thesis by simp
next
  case False
  then have sep: "sep = butlast sep @ [last sep]" by simp
  have len: "length sep \<le> length (a @ butlast sep)"
    using assms(2) by (cases a) simp_all
  have "a @ sep @ r = (a @ butlast sep) @ ([last sep] @ r)"
    using sep by (metis append.assoc)
  with assms(1) have "prefix sep ((a @ butlast sep) @ ([last sep] @ r))" by simp
  moreover have "prefix (a @ butlast sep) ((a @ butlast sep) @ ([last sep] @ r))" by simp
  ultimately show ?thesis using len by (rule prefix_length_prefix)
qed

lemma split_from_first:
  "sep \<noteq> [] \<Longrightarrow> \<not> sublist sep (p @ butlast sep) \<Longrightarrow>
   split_from sep acc (p @ sep @ r) = (rev acc @ p) # split_from sep [] r"
proof (induction p arbitrary: acc)
  case Nil
  then obtain c cs where sep: "sep = c # cs" by (cases sep) auto
  have "split_from sep acc (c # (cs @ r)) = rev acc # split_from sep [] (drop (length sep) (c # (cs @ r)))"
    using sep by simp
  then show ?case using sep by simp
next
  case (Cons x p)
  have np: "\<not> prefix sep (x # (p @ sep @ r))"
  proof
    assume "prefix sep (x # (p @ sep @ r))"
    then have "prefix sep ((x # p) @ sep @ r)" by simp
    then have "prefix sep ((x # p) @ butlast sep)" by (rule prefix_overlap) simp
    with Cons.prems(2) show False by auto
  qed
  from Cons.prems(2) have ns: "\<not> sublist sep (p @ butlast sep)"
    by (auto simp: sublist_Cons_right)
  from Cons.IH [OF Cons.prems(1) ns, of "x # acc"] np show ?case by simp
qed

lemma first_occurrence_no_earlier:
  assumes "s = p @ sep @ r" and "sep \<noteq> []"
    and least: "\<forall>p' r'. s = p' @ sep @ r' \<longrightarrow> length p \<le> length p'"
  shows "\<not> sublist sep (p @ butlast sep)"
proof
  assume "sublist sep (p @ butlast sep)"
  then obtain a b where ab: "p @ butlast sep = a @ sep @ b" by (auto simp: sublist_def)
  from assms(2) have sep: "sep = butlast sep @ [last sep]" by simp
  have "s = (p @ butlast sep) @ [last sep] @ r" using assms(1) sep by (metis append.assoc)
  with ab have "s = a @ sep @ (b @ [last sep] @ r)" by simp
  with least have "length p \<le> length a" by blast
  moreover from ab have "length (p @ butlast sep) = length (a @ sep @ b)" by simp
  then have "length p + length (butlast sep) = length a + length sep + length b" by simp
  moreover have "length (butlast sep) < length sep" using assms(2) by simp
  ultimately show False by linarith
qed

lemma first_occurrence_exists:
  assumes "sublist sep s"
  shows "\<exists>p r. s = p @ sep @ r \<and> (\<forall>p' r'. s = p' @ sep @ r' \<longrightarrow> length p \<le> length p')"
proof -
  let ?P = "\<lambda>n. \<exists>p r. s = p @ sep @ r \<and> length p = n"
  from assms have "\<exists>n. ?P n" by (auto simp: sublist_def)
  then obtain n where n: "?P n" and least: "\<forall>m<n. \<not> ?P m"
    using exists_least_iff [of ?P] by blast
  from n obtain p r where pr: "s = p @ sep @ r" "length p = n" by blast
  have "\<forall>p' r'. s = p' @ sep @ r' \<longrightarrow> length p \<le> length p'"
  proof (intro allI impI)
    fix p' r' assume "s = p' @ sep @ r'"
    then have "?P (length p')" by blast
    with least have "\<not> length p' < n" by blast
    with pr show "length p \<le> length p'" by simp
  qed
  with pr show ?thesis by blast
qed

lemma split_from_not_Nil: "split_from sep acc s \<noteq> []"
  by (induction sep acc s rule: split_from.induct) simp_all

lemma INST_MARKER_not_Nil: "INST_MARKER \<noteq> []"
  by (simp add: INST_MARKER_def)

lemma first_summary_marker:
  assumes "s = p @ INST_MARKER @ r"
    and "\<forall>p' r'. s = p' @ INST_MARKER @ r' \<longrightarrow> length p \<le> length p'"
  shows "first_summary (PyList (PyStr s # rest)) = Inr p"
proof -
  have "\<not> sublist INST_MARKER (p @ butlast INST_MARKER)"
    using assms(1) INST_MARKER_not_Nil assms(2) by (rule first_occurrence_no_earlier)
  then have "split_from INST_MARKER [] (p @ INST_MARKER @ r) = p # split_from INST_MARKER [] r"
    using split_from_first [OF INST_MARKER_not_Nil, of p "[]" r] by simp
  then show ?thesis
    using assms(1) INST_MARKER_not_Nil
    by (simp add: first_summary_def getitem0_def py_split_def index0_def str_split_def)
qed

lemma first_summary_no_marker:
  "\<not> sublist INST_MARKER s \<Longrightarrow> first_summary (PyList (PyStr s # rest)) = Inr s"
  using INST_MARKER_not_Nil
  by (simp add: first_summary_def getitem0_def py_split_def index0_def str_split_def split_from_absent)

lemma first_summary_returns: "\<exists>t. first_summary (PyList (PyStr s # rest)) = Inr t"
proof (cases "sublist INST_MARKER s")
  case True
  then show ?thesis using first_occurrence_exists first_summary_marker by blast
next
  case False
  then show ?thesis by (simp add: first_summary_no_marker)
qed

lemmas eval_defs = main_report_def summary_column_def dict_get_def dict_item_def first_summary_def
  getitem0_def py_split_def py_print_def truthy_def index0_def str_split_def INST_MARKER_def

section \<open>Properties of the summary extraction\<close>

text \<open>
  C1: both entry points split the first result string on the marker and take the first piece.
  When the string contains the marker, the summary printed by the script and the summary
  shown by the application are the prefix \<open>p\<close> before the first occurrence of the marker
  (no occurrence starts earlier); when it does not contain the marker, the application shows
  the result string itself, as its summary, and nothing is raised.
\<close>

theorem summary_extraction_prefix:
  assumes "out ''results'' = Some (PyList (PyStr s # rest))"
  shows "(sublist INST_MARKER s \<longrightarrow>
            (\<exists>p r. s = p @ INST_MARKER @ r
               \<and> (\<forall>p' r'. s = p' @ INST_MARKER @ r' \<longrightarrow> length p \<le> length p')
               \<and> main_report out = ([Repr (PyList (PyStr s # rest)), Line p], None)
               \<and> summary_column out elapsed = [Header ''Summary'', Success p, Caption elapsed]))
       \<and> (\<not> sublist INST_MARKER s \<longrightarrow>
            summary_column out elapsed = [Header ''Summary'', Success s, Caption elapsed])"
proof (intro conjI impI)
  assume "sublist INST_MARKER s"
  then obtain p r where pr: "s = p @ INST_MARKER @ r"
      "\<forall>p' r'. s = p' @ INST_MARKER @ r' \<longrightarrow> length p \<le> length p'"
    using first_occurrence_exists by blast
  then have fs: "first_summary (PyList (PyStr s # rest)) = Inr p" by (rule first_summary_marker)
  have "main_report out = ([Repr (PyList (PyStr s # rest)), Line p], None)"
    using assms fs by (simp add: main_report_def dict_get_def truthy_def py_print_def)
  moreover have "summary_column out elapsed = [Header ''Summary'', Success p, Caption elapsed]"
    using assms fs by (simp add: summary_column_def dict_item_def)
  ultimately show "\<exists>p r. s = p @ INST_MARKER @ r
       \<and> (\<forall>p' r'. s = p' @ INST_MARKER @ r' \<longrightarrow> length p \<le> length p')
       \<and> main_report out = ([Repr (PyList (PyStr s # rest)), Line p], None)
       \<and> summary_column out elapsed = [Header ''Summary'', Success p, Caption elapsed]"
    using pr by blast
next
  assume "\<not> sublist INST_MARKER s"
  then have "first_summary (PyList (PyStr s # rest)) = Inr s" by (rule first_summary_no_marker)
  then show "summary_column out elapsed = [Header ''Summary'', Success s, Caption elapsed]"
    using assms by (simp add: summary_column_def dict_item_def)
qed

theorem summary_extraction_prefix_witness:
  "sublist INST_MARKER (''A summary.'' @ INST_MARKER @ '' more'')
   \<and> main_report [''results'' \<mapsto> PyList [PyStr (''A summary.'' @ INST_MARKER @ '' more'')]]
       = ([Repr (PyList [PyStr (''A summary.'' @ INST_MARKER @ '' more'')]), Line ''A summary.''], None)
   \<and> summary_column [''results'' \<mapsto> PyList [PyStr (''A summary.'' @ INST_MARKER @ '' more'')]] 42
       = [Header ''Summary'', Success ''A summary.'', Caption 42]
   \<and> \<not> sublist INST_MARKER ''[INST] no marker''
   \<and> summary_column [''results'' \<mapsto> PyList [PyStr ''[INST] no marker'']] 42
       = [Header ''Summary'', Success ''[INST] no marker'', Caption 42]"
  using summary_extraction_prefix [of "[''results'' \<mapsto> PyList [PyStr (''A summary.'' @ INST_MARKER @ '' more'')]]"
      "''A summary.'' @ INST_MARKER @ '' more''" "[]" 42]
    summary_extraction_prefix [of "[''results'' \<mapsto> PyList [PyStr ''[INST] no marker'']]" "''[INST] no marker''" "[]" 42]
  by (simp add: eval_defs sublist_code)

section \<open>Properties of the pipeline\<close>

lemma run_loop_two_nodes:
  "run_loop env [(''whisper'', WhisperTranscriber, [''File'']), (''prompt'', PromptNodeC pn, [''whisper''])]
     [(''File'', FilePaths fs)] [] = spec_two_node_run env pn fs"
proof (cases "WhisperTranscriber_run env fs")
  case (Inl e)
  then show ?thesis
    by (simp add: run_loop.simps [of env _ "[(''File'', FilePaths fs)]"] spec_two_node_run_def ready_def
        component_run_def inputs_of_def List.map_filter_def)
next
  case (Inr t)
  then show ?thesis
    by (simp add: run_loop.simps [of env _ "[(''File'', FilePaths fs)]"]
        run_loop.simps [of env _ "[(''File'', FilePaths fs), (''whisper'', Documents t)]"]
        run_loop.simps [of env _ "[(''File'', FilePaths fs), (''whisper'', Documents t), (''prompt'', _)]"]
        spec_two_node_run_def ready_def
        component_run_def inputs_of_def List.map_filter_def split: sum.splits)
qed

text \<open>
  The order comes from the wiring, not from the order of insertion: with the two nodes
  inserted the other way round, the run is the same.
\<close>

lemma run_loop_order_from_wiring:
  "run_loop env [(''prompt'', PromptNodeC pn, [''whisper'']), (''whisper'', WhisperTranscriber, [''File''])]
     [(''File'', FilePaths fs)] [] = spec_two_node_run env pn fs"
proof (cases "WhisperTranscriber_run env fs")
  case (Inl e)
  then show ?thesis
    by (simp add: run_loop.simps [of env _ "[(''File'', FilePaths fs)]"] spec_two_node_run_def ready_def
        component_run_def inputs_of_def List.map_filter_def)
next
  case (Inr t)
  then show ?thesis
    by (simp add: run_loop.simps [of env _ "[(''File'', FilePaths fs)]"]
        run_loop.simps [of env _ "[(''File'', FilePaths fs), (''whisper'', Documents t)]"]
        run_loop.simps [of env _ "[(''File'', FilePaths fs), (''whisper'', Documents t), (''prompt'', _)]"]
        spec_two_node_run_def ready_def
        component_run_def inputs_of_def List.map_filter_def split: sum.splits)
qed

lemma Pipeline_run_two_nodes:
  "Pipeline_run env [(''whisper'', WhisperTranscriber, [''File'']), (''prompt'', PromptNodeC pn, [''whisper''])] fs
     = (spec_two_node_run env pn fs, spec_two_node_result env pn fs)"
  by (simp add: Pipeline_run_def run_loop_two_nodes)
     (simp add: spec_two_node_run_def spec_two_node_result_def last_opt_def split: sum.splits)

lemma summarize_audio_run:
  "summarize_audio env file_path prompt_node
     = (spec_two_node_run env prompt_node [file_path], spec_two_node_result env prompt_node [file_path])"
  by (simp add: summarize_audio_def summarize_audio_pipe_def add_node_def Pipeline_run_two_nodes)

lemma build_pipeline_nodes:
  "build_pipeline env path max_len gpu =
     (case PromptModel_new env path gpu max_len of
        Inl e \<Rightarrow> Inl e
      | Inr m \<Rightarrow> Inr [(''whisper'', WhisperTranscriber, [''File'']),
                    (''prompt'', PromptNodeC \<lparr>prompt_model = m, default_prompt_template = SUMMARY_PROMPT,
                                            node_use_gpu = gpu\<rparr>, [''whisper''])])"
  by (simp add: build_pipeline_def add_node_def split: sum.splits)

text \<open>
  C2: a run of the pipeline executes the transcription node first, on the file path, and
  then the summarization node, on the transcript that the transcription node produced; when
  the transcription fails the summarization node is not executed; one node is executed at a
  time. This is what \<open>summarize_audio\<close> does with its prompt node, what a run of the pipeline
  that \<open>build_pipeline\<close> returns does with the prompt node built around the model, and so
  what the script's \<open>main\<close> reports from and what the application's \<open>main\<close> shows: the
  output of the summarization of the transcript of the downloaded file.
\<close>

theorem pipeline_runs_whisper_then_prompt:
  "summarize_audio env file_path prompt_node
     = (spec_two_node_run env prompt_node [file_path], spec_two_node_result env prompt_node [file_path])
   \<and> (PromptModel_new env path gpu max_len = Inr m \<longrightarrow>
        (\<exists>p. build_pipeline env path max_len gpu = Inr p
           \<and> Pipeline_run env p [file_path]
               = (spec_two_node_run env
                    \<lparr>prompt_model = m, default_prompt_template = SUMMARY_PROMPT, node_use_gpu = gpu\<rparr>
                    [file_path],
                  spec_two_node_result env
                    \<lparr>prompt_model = m, default_prompt_template = SUMMARY_PROMPT, node_use_gpu = gpu\<rparr>
                    [file_path])))
   \<and> (youtube_to_audio env url ''160kbps'' = Inr file_path
        \<and> PromptModel_new env MODEL_PATH False MODEL_MAX_LENGTH = Inr m'
      \<longrightarrow> summary_main env url
            = (case spec_two_node_result env
                      \<lparr>prompt_model = m', default_prompt_template = SUMMARY_PROMPT, node_use_gpu = False\<rparr>
                      [file_path] of
                 Inl e \<Rightarrow> ([], Some e)
               | Inr out \<Rightarrow> main_report out))
   \<and> (submit inp \<and> youtube_url inp \<noteq> []
        \<and> download_audio env (youtube_url inp) = (shown, Some audio) \<and> audio \<noteq> []
        \<and> load_model env (model_path inp) = (shown', Inr (Some lm))
      \<longrightarrow> youtube_summarizer_main env inp
            = (case spec_two_node_result env (build_prompt_node lm) [audio] of
                 Inl e \<Rightarrow>
                   ([Title, Markdown, Expander, Info ''Downloading and processing video...'']
                      @ shown @ shown', Some e)
               | Inr result \<Rightarrow>
                   ([Title, Markdown, Expander, Info ''Downloading and processing video...'']
                      @ shown @ shown' @ [Video (youtube_url inp)]
                      @ summary_column result
                          (time_time env [Downloaded (youtube_url inp), Model_loaded (model_path inp),
                                          Summarized audio] - time_time env []), None)))"
  by (auto simp: summarize_audio_run build_pipeline_nodes Pipeline_run_two_nodes summary_main_def
      youtube_summarizer_main_def Let_def split: sum.splits)

text \<open>The equations that evaluate a run in a concrete world.\<close>

lemmas run_defs = summary_main_def youtube_to_audio_def filter_abr_def last_opt_def
  build_pipeline_nodes Pipeline_run_two_nodes spec_two_node_run_def spec_two_node_result_def
  example_env_def

lemmas ui_defs = youtube_summarizer_main_def download_audio_def first_def load_model_def
  build_prompt_node_def summarize_audio_run

theorem pipeline_runs_whisper_then_prompt_witness:
  "summarize_audio example_env ''audio_talk.webm''
       (build_prompt_node \<lparr>model_name_or_path = MODEL_PATH,
          invocation_layer = \<lparr>model = one_token_runtime, max_length = 512\<rparr>,
          use_gpu = False, model_max_length = 512\<rparr>)
     = ([(''whisper'', [FilePaths [''audio_talk.webm'']], Inr (Documents ''a transcript'')),
         (''prompt'', [Documents ''a transcript''],
            Inr (Results [''results'' \<mapsto> PyList [PyStr (''A summary.'' @ INST_MARKER @ '' more'')]]))],
        Inr [''results'' \<mapsto> PyList [PyStr (''A summary.'' @ INST_MARKER @ '' more'')]])
   \<and> (\<exists>p. build_pipeline example_env MODEL_PATH MODEL_MAX_LENGTH False = Inr p
         \<and> Pipeline_run example_env p [''talk.webm'']
           = ([(''whisper'', [FilePaths [''talk.webm'']], Inr (Documents ''a transcript'')),
               (''prompt'', [Documents ''a transcript''],
                  Inr (Results [''results'' \<mapsto> PyList [PyStr (''A summary.'' @ INST_MARKER @ '' more'')]]))],
              Inr [''results'' \<mapsto> PyList [PyStr (''A summary.'' @ INST_MARKER @ '' more'')]]))
   \<and> summary_main example_env YOUTUBE_URL
     = ([Repr (PyList [PyStr (''A summary.'' @ INST_MARKER @ '' more'')]), Line ''A summary.''], None)
   \<and> youtube_summarizer_main example_env
       \<lparr>youtube_url = YOUTUBE_URL, model_path = MODEL_PATH, submit = True\<rparr>
     = ([Title, Markdown, Expander, Info ''Downloading and processing video...'', Video YOUTUBE_URL,
         Header ''Summary'', Success ''A summary.'', Caption 42], None)"
  using pipeline_runs_whisper_then_prompt
    [where env = example_env and file_path = "''talk.webm''" and path = MODEL_PATH
       and inp = "\<lparr>youtube_url = YOUTUBE_URL, model_path = MODEL_PATH, submit = True\<rparr>"
       and shown = "[]" and audio = "''audio_talk.webm''" and shown' = "[]"
       and lm = "\<lparr>model_name_or_path = MODEL_PATH,
          invocation_layer = \<lparr>model = one_token_runtime, max_length = 512\<rparr>,
          use_gpu = False, model_max_length = 512\<rparr>"
       and gpu = False and max_len = MODEL_MAX_LENGTH and url = YOUTUBE_URL
       and prompt_node = "build_prompt_node \<lparr>model_name_or_path = MODEL_PATH,
          invocation_layer = \<lparr>model = one_token_runtime, max_length = 512\<rparr>,
          use_gpu = False, model_max_length = 512\<rparr>"
       and m = "\<lparr>model_name_or_path = MODEL_PATH,
          invocation_layer = \<lparr>model = one_token_runtime, max_length = MODEL_MAX_LENGTH\<rparr>,
          use_gpu = False, model_max_length = MODEL_MAX_LENGTH\<rparr>"
       and m' = "\<lparr>model_name_or_path = MODEL_PATH,
          invocation_layer = \<lparr>model = one_token_runtime, max_length = MODEL_MAX_LENGTH\<rparr>,
          use_gpu = False, model_max_length = MODEL_MAX_LENGTH\<rparr>"]
    pipeline_runs_whisper_then_prompt
    [where env = example_env and file_path = "''audio_talk.webm''"
       and prompt_node = "build_prompt_node \<lparr>model_name_or_path = MODEL_PATH,
          invocation_layer = \<lparr>model = one_token_runtime, max_length = 512\<rparr>,
          use_gpu = False, model_max_length = 512\<rparr>"]
  by (simp add: run_defs ui_defs eval_defs YOUTUBE_URL_def)

section \<open>Properties of the two entry points\<close>

text \<open>
  C7: the script's extraction has no handler: at the pipeline output
  \<open>{"results": [None]}\<close> the expression \<open>results[0].split(...)\<close> raises an AttributeError, which
  leaves \<open>main\<close> after the list has been printed. In the application the same expression is
  inside \<open>try\<close>: whenever it raises (the key is missing, the list is empty, the first result
  is no string), the warning and the raw output are shown, then the caption, and nothing
  leaves \<open>main\<close>.
\<close>

theorem extraction_unguarded_in_script:
  "main_report [''results'' \<mapsto> PyList [PyNone]]
     = ([Repr (PyList [PyNone])], Some (Exn AttributeError ''NoneType object has no attribute split''))
   \<and> summary_column [''results'' \<mapsto> PyList [PyNone]] elapsed
     = [Header ''Summary'', Warning ''Summary extraction failed. Full output below:'',
        Write [''results'' \<mapsto> PyList [PyNone]], Caption elapsed]
   \<and> (youtube_to_audio env url ''160kbps'' = Inr file_path
        \<and> build_pipeline env MODEL_PATH MODEL_MAX_LENGTH False = Inr pipeline
        \<and> snd (Pipeline_run env pipeline [file_path]) = Inr out
        \<and> out ''results'' = Some results \<and> truthy results \<and> first_summary results = Inl e
      \<longrightarrow> summary_main env url = ([py_print results], Some e))
   \<and> (submit inp \<and> youtube_url inp \<noteq> []
        \<and> download_audio env (youtube_url inp) = (shown, Some path) \<and> path \<noteq> []
        \<and> load_model env (model_path inp) = (shown', Inr (Some m))
        \<and> snd (summarize_audio env path (build_prompt_node m)) = Inr result
        \<and> (result ''results'' = None
             \<or> (\<exists>rs e'. result ''results'' = Some rs \<and> first_summary rs = Inl e'))
      \<longrightarrow> youtube_summarizer_main env inp
            = ([Title, Markdown, Expander, Info ''Downloading and processing video...''] @ shown @ shown'
                 @ [Video (youtube_url inp), Header ''Summary'',
                    Warning ''Summary extraction failed. Full output below:'', Write result,
                    Caption (time_time env [Downloaded (youtube_url inp), Model_loaded (model_path inp),
                                            Summarized path] - time_time env [])], None))"
proof (intro conjI impI)
  show "main_report [''results'' \<mapsto> PyList [PyNone]]
     = ([Repr (PyList [PyNone])], Some (Exn AttributeError ''NoneType object has no attribute split''))"
    by (simp add: eval_defs)
next
  show "summary_column [''results'' \<mapsto> PyList [PyNone]] elapsed
     = [Header ''Summary'', Warning ''Summary extraction failed. Full output below:'',
        Write [''results'' \<mapsto> PyList [PyNone]], Caption elapsed]"
    by (simp add: eval_defs)
next
  assume "youtube_to_audio env url ''160kbps'' = Inr file_path
        \<and> build_pipeline env MODEL_PATH MODEL_MAX_LENGTH False = Inr pipeline
        \<and> snd (Pipeline_run env pipeline [file_path]) = Inr out
        \<and> out ''results'' = Some results \<and> truthy results \<and> first_summary results = Inl e"
  then show "summary_main env url = ([py_print results], Some e)"
    by (simp add: summary_main_def main_report_def dict_get_def)
next
  assume h: "submit inp \<and> youtube_url inp \<noteq> []
        \<and> download_audio env (youtube_url inp) = (shown, Some path) \<and> path \<noteq> []
        \<and> load_model env (model_path inp) = (shown', Inr (Some m))
        \<and> snd (summarize_audio env path (build_prompt_node m)) = Inr result
        \<and> (result ''results'' = None
             \<or> (\<exists>rs e'. result ''results'' = Some rs \<and> first_summary rs = Inl e'))"
  then have "summary_column result t
      = [Header ''Summary'', Warning ''Summary extraction failed. Full output below:'', Write result,
         Caption t]" for t
    by (auto simp: summary_column_def dict_item_def)
  with h show "youtube_summarizer_main env inp
            = ([Title, Markdown, Expander, Info ''Downloading and processing video...''] @ shown @ shown'
                 @ [Video (youtube_url inp), Header ''Summary'',
                    Warning ''Summary extraction failed. Full output below:'', Write result,
                    Caption (time_time env [Downloaded (youtube_url inp), Model_loaded (model_path inp),
                                            Summarized path] - time_time env [])], None)"
    by (simp add: youtube_summarizer_main_def Let_def)
qed

theorem extraction_unguarded_in_script_witness:
  "summary_main (example_env\<lparr>PromptNode_run := (\<lambda>pn t. Inr [''results'' \<mapsto> PyList [PyNone]])\<rparr>)
     YOUTUBE_URL
     = ([Repr (PyList [PyNone])], Some (Exn AttributeError ''NoneType object has no attribute split''))
   \<and> youtube_summarizer_main
       (example_env\<lparr>PromptNode_run := (\<lambda>pn t. Inr [''results'' \<mapsto> PyList [PyNone]])\<rparr>)
       \<lparr>youtube_url = YOUTUBE_URL, model_path = MODEL_PATH, submit = True\<rparr>
     = ([Title, Markdown, Expander, Info ''Downloading and processing video...'', Video YOUTUBE_URL,
         Header ''Summary'', Warning ''Summary extraction failed. Full output below:'',
         Write [''results'' \<mapsto> PyList [PyNone]], Caption 42], None)"
  using extraction_unguarded_in_script
    [where env = "example_env\<lparr>PromptNode_run := (\<lambda>pn t. Inr [''results'' \<mapsto> PyList [PyNone]])\<rparr>"
       and url = YOUTUBE_URL and file_path = "''talk.webm''"
       and pipeline = "[(''whisper'', WhisperTranscriber, [''File'']),
           (''prompt'', PromptNodeC \<lparr>prompt_model = \<lparr>model_name_or_path = MODEL_PATH,
                invocation_layer = \<lparr>model = one_token_runtime, max_length = MODEL_MAX_LENGTH\<rparr>,
                use_gpu = False, model_max_length = MODEL_MAX_LENGTH\<rparr>,
              default_prompt_template = SUMMARY_PROMPT, node_use_gpu = False\<rparr>, [''whisper''])]"
       and out = "[''results'' \<mapsto> PyList [PyNone]]" and results = "PyList [PyNone]"
       and e = "Exn AttributeError ''NoneType object has no attribute split''"
       and inp = "\<lparr>youtube_url = YOUTUBE_URL, model_path = MODEL_PATH, submit = True\<rparr>"
       and shown = "[]" and path = "''audio_talk.webm''" and shown' = "[]"
       and m = "\<lparr>model_name_or_path = MODEL_PATH,
                invocation_layer = \<lparr>model = one_token_runtime, max_length = 512\<rparr>,
                use_gpu = False, model_max_length = 512\<rparr>"
       and result = "[''results'' \<mapsto> PyList [PyNone]]" and elapsed = 42]
  by (simp add: run_defs ui_defs eval_defs YOUTUBE_URL_def)

text \<open>
  C4: when the streams resolved for the URL contain no stream that passes the bitrate
  filter, \<open>youtube_to_audio\<close> raises the ValueError "No audio stream with ... available." and
  returns no path. A stream passes the filter when its bitrate is the requested one, and, as
  pytube has it, every stream passes when the requested bitrate is the empty string.
\<close>

theorem youtube_to_audio_no_stream:
  assumes "YouTube_streams env url = Inr streams"
    and "\<forall>s\<in>set streams. abr_wanted \<noteq> [] \<and> abr s \<noteq> Some abr_wanted"
  shows "youtube_to_audio env url abr_wanted
           = Inl (Exn ValueError (''No audio stream with '' @ abr_wanted @ '' available.''))"
proof -
  from assms(2) have "filter_abr abr_wanted streams = []"
    by (cases streams) (auto simp: filter_abr_def filter_empty_conv)
  with assms(1) show ?thesis by (simp add: youtube_to_audio_def last_opt_def)
qed

theorem youtube_to_audio_no_stream_witness:
  "youtube_to_audio example_env YOUTUBE_URL ''320kbps''
     = Inl (Exn ValueError ''No audio stream with 320kbps available.'')
   \<and> youtube_to_audio (example_env\<lparr>YouTube_streams := (\<lambda>url. Inr
          [\<lparr>itag = 18, abr = None, includes_audio_track = True, includes_video_track = True\<rparr>,
           \<lparr>itag = 140, abr = Some ''128kbps'', includes_audio_track = True, includes_video_track = False\<rparr>])\<rparr>)
        YOUTUBE_URL ''160kbps''
     = Inl (Exn ValueError ''No audio stream with 160kbps available.'')
   \<and> youtube_to_audio (example_env\<lparr>YouTube_streams := (\<lambda>url. Inr [])\<rparr>) YOUTUBE_URL []
     = Inl (Exn ValueError ''No audio stream with  available.'')"
  using youtube_to_audio_no_stream [of example_env YOUTUBE_URL
      "[\<lparr>itag = 140, abr = Some ''128kbps'', includes_audio_track = True, includes_video_track = False\<rparr>,
        \<lparr>itag = 251, abr = Some ''160kbps'', includes_audio_track = True, includes_video_track = False\<rparr>]"
      "''320kbps''"]
    youtube_to_audio_no_stream [of "example_env\<lparr>YouTube_streams := (\<lambda>url. Inr
          [\<lparr>itag = 18, abr = None, includes_audio_track = True, includes_video_track = True\<rparr>,
           \<lparr>itag = 140, abr = Some ''128kbps'', includes_audio_track = True, includes_video_track = False\<rparr>])\<rparr>"
      YOUTUBE_URL
      "[\<lparr>itag = 18, abr = None, includes_audio_track = True, includes_video_track = True\<rparr>,
        \<lparr>itag = 140, abr = Some ''128kbps'', includes_audio_track = True, includes_video_track = False\<rparr>]"
      "''160kbps''"]
    youtube_to_audio_no_stream [of "example_env\<lparr>YouTube_streams := (\<lambda>url. Inr [])\<rparr>" YOUTUBE_URL
      "[]" "[]"]
  by (simp add: example_env_def)

text \<open>
  With the empty string as the bitrate nothing is filtered out: the last of the streams is
  downloaded.
\<close>

lemma youtube_to_audio_empty_abr:
  "youtube_to_audio example_env YOUTUBE_URL [] = Inr ''talk.webm''"
  by (simp add: run_defs)

text \<open>
  C9: when the output of the pipeline has no key \<open>"results"\<close>, or an empty list under it,
  the script's \<open>main\<close> prints the message "No results produced by pipeline." and returns;
  nothing else is printed and nothing is raised.
\<close>

theorem main_no_results_message:
  assumes "youtube_to_audio env url ''160kbps'' = Inr file_path"
    and "build_pipeline env MODEL_PATH MODEL_MAX_LENGTH False = Inr pipeline"
    and "snd (Pipeline_run env pipeline [file_path]) = Inr out"
    and "out ''results'' = None \<or> out ''results'' = Some (PyList [])"
  shows "summary_main env url = ([Line ''No results produced by pipeline.''], None)"
  using assms by (auto simp: summary_main_def main_report_def dict_get_def truthy_def)

theorem main_no_results_message_witness:
  "summary_main (example_env\<lparr>PromptNode_run := (\<lambda>pn t. Inr Map.empty)\<rparr>) YOUTUBE_URL
     = ([Line ''No results produced by pipeline.''], None)
   \<and> summary_main (example_env\<lparr>PromptNode_run := (\<lambda>pn t. Inr [''results'' \<mapsto> PyList []])\<rparr>) YOUTUBE_URL
     = ([Line ''No results produced by pipeline.''], None)"
proof
  let ?e1 = "example_env\<lparr>PromptNode_run := (\<lambda>pn t. Inr Map.empty)\<rparr>"
  let ?e2 = "example_env\<lparr>PromptNode_run := (\<lambda>pn t. Inr [''results'' \<mapsto> PyList []])\<rparr>"
  let ?pn = "\<lparr>prompt_model = \<lparr>model_name_or_path = MODEL_PATH,
      invocation_layer = \<lparr>model = one_token_runtime, max_length = MODEL_MAX_LENGTH\<rparr>,
      use_gpu = False, model_max_length = MODEL_MAX_LENGTH\<rparr>,
      default_prompt_template = SUMMARY_PROMPT, node_use_gpu = False\<rparr>"
  let ?p = "[(''whisper'', WhisperTranscriber, [''File'']), (''prompt'', PromptNodeC ?pn, [''whisper''])]"
  show "summary_main ?e1 YOUTUBE_URL = ([Line ''No results produced by pipeline.''], None)"
  proof (rule main_no_results_message [where file_path = "''talk.webm''" and pipeline = ?p and out = Map.empty])
    show "youtube_to_audio ?e1 YOUTUBE_URL ''160kbps'' = Inr ''talk.webm''" by (simp add: run_defs)
    show "build_pipeline ?e1 MODEL_PATH MODEL_MAX_LENGTH False = Inr ?p" by (simp add: run_defs)
    show "snd (Pipeline_run ?e1 ?p [''talk.webm'']) = Inr Map.empty" by (simp add: run_defs)
    show "Map.empty ''results'' = None \<or> Map.empty ''results'' = Some (PyList [])" by simp
  qed
  show "summary_main ?e2 YOUTUBE_URL = ([Line ''No results produced by pipeline.''], None)"
  proof (rule main_no_results_message [where file_path = "''talk.webm''" and pipeline = ?p
        and out = "[''results'' \<mapsto> PyList []]"])
    show "youtube_to_audio ?e2 YOUTUBE_URL ''160kbps'' = Inr ''talk.webm''" by (simp add: run_defs)
    show "build_pipeline ?e2 MODEL_PATH MODEL_MAX_LENGTH False = Inr ?p" by (simp add: run_defs)
    show "snd (Pipeline_run ?e2 ?p [''talk.webm'']) = Inr [''results'' \<mapsto> PyList []]" by (simp add: run_defs)
    show "[''results'' \<mapsto> PyList []] ''results'' = None
        \<or> [''results'' \<mapsto> PyList []] ''results'' = Some (PyList [])" by simp
  qed
qed

text \<open>
  When the constructor of the model raises, as it does with Haystack, no pipeline is built
  in the script, and the application, once the file of the model exists, gets the exception
  from \<open>load_model\<close>.
\<close>

lemma build_pipeline_constructor_raises:
  "PromptModel_new env path gpu max_len = Inl e \<Longrightarrow> build_pipeline env path max_len gpu = Inl e"
  by (simp add: build_pipeline_def)

lemma load_model_constructor_raises:
  "os_path_exists env path \<Longrightarrow> PromptModel_new env path False 512 = Inl e \<Longrightarrow>
   load_model env path = ([], Inl e)"
  by (simp add: load_model_def)

text \<open>
  C5, at a run where the model file is missing and the construction of the model raises (with
  Haystack, the TypeError of the call of the layer class): the script's \<open>main\<close> downloads the
  audio, then the construction of the pipeline raises and the exception leaves \<open>main\<close> with
  nothing printed; the application, in the same world, shows "Model not found at ..." and
  halts.
\<close>

theorem summary_main_missing_model_uncaught:
  "summary_main
     (example_env\<lparr>os_path_exists := (\<lambda>path. False),
                   PromptModel_new := (\<lambda>path gpu max_len. Inl (Exn TypeError
                     ''__init__() got an unexpected keyword argument model_name_or_path''))\<rparr>)
     YOUTUBE_URL
   = ([], Some (Exn TypeError ''__init__() got an unexpected keyword argument model_name_or_path''))
   \<and> youtube_summarizer_main
     (example_env\<lparr>os_path_exists := (\<lambda>path. False),
                   PromptModel_new := (\<lambda>path gpu max_len. Inl (Exn TypeError
                     ''__init__() got an unexpected keyword argument model_name_or_path''))\<rparr>)
     \<lparr>youtube_url = YOUTUBE_URL, model_path = MODEL_PATH, submit = True\<rparr>
   = ([Title, Markdown, Expander, Info ''Downloading and processing video...'',
       Error ''Model not found at llama-2-7b-32k-instruct.Q4_K_S.gguf''], None)"
  by (simp add: run_defs ui_defs MODEL_PATH_def MODEL_MAX_LENGTH_def YOUTUBE_URL_def)

text \<open>The script never reads the clock: its run is the same under any clock.\<close>

lemma component_run_clock:
  "component_run (env\<lparr>time_time := clock\<rparr>) cmp ins = component_run env cmp ins"
  by (simp add: component_run_def split: component.splits list.splits data.splits)

lemma run_loop_clock:
  "run_loop (env\<lparr>time_time := clock\<rparr>) p outs trace = run_loop env p outs trace"
proof (induction env p outs trace rule: run_loop.induct)
  case (1 env p outs trace)
  show ?case
  proof (cases "find (ready outs) p")
    case None
    then show ?thesis
      by (simp add: run_loop.simps [of _ p outs trace])
  next
    case (Some n)
    obtain name cmp inputs where n: "n = (name, cmp, inputs)" by (cases n) auto
    show ?thesis
    proof (cases "component_run env cmp (inputs_of outs inputs)")
      case (Inl e)
      with Some n show ?thesis
        by (simp add: run_loop.simps [of _ p outs trace] component_run_clock)
    next
      case (Inr d)
      from "1.IH" [OF Some [unfolded n] refl refl Inr] Some n Inr show ?thesis
        by (simp add: run_loop.simps [of _ p outs trace] component_run_clock)
    qed
  qed
qed

lemma youtube_to_audio_clock:
  "youtube_to_audio (env\<lparr>time_time := clock\<rparr>) url a = youtube_to_audio env url a"
  by (simp add: youtube_to_audio_def split: sum.splits option.splits)

lemma build_pipeline_clock:
  "build_pipeline (env\<lparr>time_time := clock\<rparr>) path n gpu = build_pipeline env path n gpu"
  by (simp add: build_pipeline_def)

lemma Pipeline_run_clock:
  "Pipeline_run (env\<lparr>time_time := clock\<rparr>) p fs = Pipeline_run env p fs"
  by (simp add: Pipeline_run_def run_loop_clock)

lemma summary_main_clock:
  "summary_main (env\<lparr>time_time := clock\<rparr>) url = summary_main env url"
  by (simp add: summary_main_def youtube_to_audio_clock build_pipeline_clock Pipeline_run_clock
      cong: sum.case_cong)

text \<open>The column of the summary ends with the caption; nothing else in a run is a caption.\<close>

lemma summary_column_caption:
  "\<exists>col. summary_column result elapsed = col @ [Caption elapsed]"
  by (simp add: summary_column_def)

lemma download_audio_no_caption: "Caption t \<notin> set (fst (download_audio env url))"
  by (auto simp: download_audio_def split: sum.splits option.splits)

lemma load_model_no_caption: "Caption t \<notin> set (fst (load_model env path))"
  by (auto simp: load_model_def split: sum.splits)

text \<open>
  C8, as stated, fails: the script's output on a complete run holds the results and the
  summary and no time, and is the same under another clock; and the application, on a run
  that halts at a missing model, shows no processing time.
\<close>

theorem elapsed_time_not_always_reported:
  "summary_main example_env YOUTUBE_URL
     = ([Repr (PyList [PyStr (''A summary.'' @ INST_MARKER @ '' more'')]), Line ''A summary.''], None)
   \<and> summary_main (example_env\<lparr>time_time := (\<lambda>steps. 1000 * real (length steps))\<rparr>) YOUTUBE_URL
     = summary_main example_env YOUTUBE_URL
   \<and> youtube_summarizer_main (example_env\<lparr>os_path_exists := (\<lambda>path. False)\<rparr>)
       \<lparr>youtube_url = YOUTUBE_URL, model_path = MODEL_PATH, submit = True\<rparr>
     = ([Title, Markdown, Expander, Info ''Downloading and processing video...'',
         Error ''Model not found at llama-2-7b-32k-instruct.Q4_K_S.gguf''], None)"
  by (simp add: run_defs ui_defs eval_defs MODEL_PATH_def MODEL_MAX_LENGTH_def YOUTUBE_URL_def)

text \<open>
  C8, amended: on a run of the application that completes (the button is pressed with a URL,
  and the download, the loading of the model and the run of the pipeline succeed), the last
  thing shown is the caption with the elapsed time: the clock read once the three steps are
  completed, minus the clock read before the download. On every other run of the application
  no caption is shown. The script measures no time: its run does not depend on the clock.
\<close>

theorem elapsed_time_reported_by_ui:
  "(run_completes env inp \<and> download_audio env (youtube_url inp) = (shown, Some file_path)
      \<longrightarrow> (\<exists>events. youtube_summarizer_main env inp
             = (events @ [Caption (time_time env [Downloaded (youtube_url inp),
                                                   Model_loaded (model_path inp),
                                                   Summarized file_path]
                                    - time_time env [])], None)))
   \<and> (\<not> run_completes env inp
      \<longrightarrow> (\<forall>t. Caption t \<notin> set (fst (youtube_summarizer_main env inp))))
   \<and> summary_main (env\<lparr>time_time := clock\<rparr>) url = summary_main env url"
proof (intro conjI impI allI)
  assume h: "run_completes env inp \<and> download_audio env (youtube_url inp) = (shown, Some file_path)"
  let ?elapsed = "time_time env [Downloaded (youtube_url inp), Model_loaded (model_path inp),
      Summarized file_path] - time_time env []"
  from h obtain shown' m result where
    s: "submit inp" "youtube_url inp \<noteq> []" "file_path \<noteq> []"
      "load_model env (model_path inp) = (shown', Inr (Some m))"
      "snd (summarize_audio env file_path (build_prompt_node m)) = Inr result"
    by (auto simp: run_completes_def split: prod.splits option.splits sum.splits)
  obtain col where col: "summary_column result ?elapsed = col @ [Caption ?elapsed]"
    using summary_column_caption by blast
  from h s have "youtube_summarizer_main env inp
      = ([Title, Markdown, Expander, Info ''Downloading and processing video...''] @ shown @ shown'
           @ [Video (youtube_url inp)] @ summary_column result ?elapsed, None)"
    by (simp add: youtube_summarizer_main_def Let_def)
  with col have "youtube_summarizer_main env inp
      = (([Title, Markdown, Expander, Info ''Downloading and processing video...''] @ shown @ shown'
           @ [Video (youtube_url inp)] @ col) @ [Caption ?elapsed], None)"
    by simp
  then show "\<exists>events. youtube_summarizer_main env inp = (events @ [Caption ?elapsed], None)"
    by blast
next
  fix t
  assume n: "\<not> run_completes env inp"
  have d: "Caption t \<notin> set (fst (download_audio env (youtube_url inp)))"
    by (rule download_audio_no_caption)
  have l: "Caption t \<notin> set (fst (load_model env (model_path inp)))"
    by (rule load_model_no_caption)
  show "Caption t \<notin> set (fst (youtube_summarizer_main env inp))"
  proof (cases "submit inp \<and> youtube_url inp \<noteq> []")
    case False
    then show ?thesis by (auto simp: youtube_summarizer_main_def)
  next
    case True
    obtain shown got where dl: "download_audio env (youtube_url inp) = (shown, got)"
      by (cases "download_audio env (youtube_url inp)") auto
    with d have ds: "Caption t \<notin> set shown" by simp
    show ?thesis
    proof (cases got)
      case None
      with True dl ds show ?thesis by (simp add: youtube_summarizer_main_def Let_def)
    next
      case (Some file_path)
      show ?thesis
      proof (cases "file_path = []")
        case True
        with \<open>submit inp \<and> youtube_url inp \<noteq> []\<close> dl ds Some show ?thesis
          by (simp add: youtube_summarizer_main_def Let_def)
      next
        case False
        obtain shown' loaded where lm: "load_model env (model_path inp) = (shown', loaded)"
          by (cases "load_model env (model_path inp)") auto
        with l have ls: "Caption t \<notin> set shown'" by simp
        show ?thesis
        proof (cases loaded)
          case (Inl e)
          with True dl ds Some False lm ls show ?thesis
            by (simp add: youtube_summarizer_main_def Let_def)
        next
          case (Inr mo)
          show ?thesis
          proof (cases mo)
            case None
            with True dl ds Some False lm ls Inr show ?thesis
              by (simp add: youtube_summarizer_main_def Let_def)
          next
            case (Some m)
            show ?thesis
            proof (cases "snd (summarize_audio env file_path (build_prompt_node m))")
              case (Inl e)
              with True dl ds \<open>got = Some file_path\<close> False lm ls Inr Some show ?thesis
                by (simp add: youtube_summarizer_main_def Let_def)
            next
              case (Inr result)
              with True dl \<open>got = Some file_path\<close> False lm \<open>loaded = Inr mo\<close> Some
              have "run_completes env inp" by (simp add: run_completes_def)
              with n show ?thesis by contradiction
            qed
          qed
        qed
      qed
    qed
  qed
next
  show "summary_main (env\<lparr>time_time := clock\<rparr>) url = summary_main env url"
    by (rule summary_main_clock)
qed

theorem elapsed_time_reported_by_ui_witness:
  "run_completes example_env \<lparr>youtube_url = YOUTUBE_URL, model_path = MODEL_PATH, submit = True\<rparr>
   \<and> youtube_summarizer_main example_env
       \<lparr>youtube_url = YOUTUBE_URL, model_path = MODEL_PATH, submit = True\<rparr>
     = ([Title, Markdown, Expander, Info ''Downloading and processing video...'', Video YOUTUBE_URL,
         Header ''Summary'', Success ''A summary.'', Caption 42], None)
   \<and> \<not> run_completes (example_env\<lparr>os_path_exists := (\<lambda>path. False)\<rparr>)
         \<lparr>youtube_url = YOUTUBE_URL, model_path = MODEL_PATH, submit = True\<rparr>
   \<and> (\<forall>t. Caption t \<notin> set (fst (youtube_summarizer_main
         (example_env\<lparr>os_path_exists := (\<lambda>path. False)\<rparr>)
         \<lparr>youtube_url = YOUTUBE_URL, model_path = MODEL_PATH, submit = True\<rparr>)))"
proof (intro conjI)
  let ?inp = "\<lparr>youtube_url = YOUTUBE_URL, model_path = MODEL_PATH, submit = True\<rparr>"
  let ?halt = "example_env\<lparr>os_path_exists := (\<lambda>path. False)\<rparr>"
  show c: "run_completes example_env ?inp"
    by (simp add: run_completes_def run_defs ui_defs YOUTUBE_URL_def)
  have d: "download_audio example_env (youtube_url ?inp) = ([], Some ''audio_talk.webm'')"
    by (simp add: run_defs ui_defs)
  from elapsed_time_reported_by_ui [of example_env ?inp "[]" "''audio_talk.webm''"] c d
  obtain events where "youtube_summarizer_main example_env ?inp
      = (events @ [Caption (time_time example_env [Downloaded (youtube_url ?inp),
            Model_loaded (model_path ?inp), Summarized ''audio_talk.webm''] - time_time example_env [])], None)"
    by blast
  then show "youtube_summarizer_main example_env ?inp
     = ([Title, Markdown, Expander, Info ''Downloading and processing video...'', Video YOUTUBE_URL,
         Header ''Summary'', Success ''A summary.'', Caption 42], None)"
    by (simp add: run_defs ui_defs eval_defs YOUTUBE_URL_def)
  show n: "\<not> run_completes ?halt ?inp"
    by (simp add: run_completes_def run_defs ui_defs YOUTUBE_URL_def)
  with elapsed_time_reported_by_ui [of ?halt ?inp]
  show "\<forall>t. Caption t \<notin> set (fst (youtube_summarizer_main ?halt ?inp))"
    by blast
qed

end
